theory Spec2Isabelle
  imports Main "HOL-Library.AList"
begin

section \<open>Values, errors, panics\<close>

text \<open>
  The package \<^verbatim>\<open>response\<close> (file \<^verbatim>\<open>helper.go\<close>) renders templates, strings, bytes and
  JSON onto the \<^verbatim>\<open>http.ResponseWriter\<close> of a \<^verbatim>\<open>core.Context\<close>.  Its own code is embedded
  below function by function.  What it calls but does not define (the template engine of
  \<^verbatim>\<open>html/template\<close>, \<^verbatim>\<open>json.Marshal\<close>, \<^verbatim>\<open>httputil.SetDetectedContentType\<close>,
  \<^verbatim>\<open>core.Production\<close>) is a parameter of the function that uses it.
\<close>

definition templatesDir :: string where
  "templatesDir = ''templates''"

text \<open>Go's \<^verbatim>\<open>%q\<close> verb on a string without special characters: the string in double quotes.\<close>

definition quoted :: "string \<Rightarrow> string" where
  "quoted s = [CHR 0x22] @ s @ [CHR 0x22]"

text \<open>
  An \<^verbatim>\<open>error\<close> value is either the package's own \<^verbatim>\<open>errNoTemplatesDir\<close> or an error of a
  collaborator, kept by its message.
\<close>

datatype error = errNoTemplatesDir | Err string

fun Error :: "error \<Rightarrow> string" where
  "Error errNoTemplatesDir =
     ''response: templates can't be used without a '' @ quoted templatesDir @ '' directory''"
| "Error (Err msg) = msg"

text \<open>\<^verbatim>\<open>panic(v)\<close> is called with an \<^verbatim>\<open>error\<close> or with a string.\<close>

datatype panic = PanicError error | PanicString string

text \<open>
  The values of type \<^verbatim>\<open>interface{}\<close> a data map holds: the pointer to a \<^verbatim>\<open>core.Context\<close>
  (by its address), a boolean, a string, an integer.
\<close>

datatype val = VContext nat | VBool bool | VString string | VInt int

section \<open>Maps, the store, the package variables\<close>

text \<open>
  A Go map is the list of its entries, looked up with \<^const>\<open>map_of\<close> and assigned with
  \<^const>\<open>AList.update\<close>; a \<^verbatim>\<open>range\<close> loop visits the entries in the order of the list, which
  stands for the order the runtime happens to choose.  A \<^verbatim>\<open>DataMap\<close> argument is a
  reference: \<open>None\<close> is the nil map, \<open>Some a\<close> the map stored at address \<open>a\<close>.
\<close>

type_synonym gomap = "(string \<times> val) list"

type_synonym DataMap = "nat option"

text \<open>
  The package variables \<^verbatim>\<open>templates\<close> (nil until \<^verbatim>\<open>init\<close> finds the directory) and
  \<^verbatim>\<open>templatesData\<close> (nil until the first registration), and the store of the callers' maps.
\<close>

record 'cat state =
  templates :: "'cat option"
  templatesData :: "gomap option"
  heap :: "nat \<Rightarrow> gomap"

section \<open>The response writer\<close>

text \<open>
  \<^verbatim>\<open>c.ResponseWriter\<close> is an interface of the host; the model keeps the calls made on it,
  oldest first.
\<close>

datatype rw_call = HeaderSet string string | WriteHeader int | Write string

record Context =
  ptr :: nat
  ResponseWriter :: "rw_call list"

text \<open>The bytes handed to \<^verbatim>\<open>Write\<close>, in order.\<close>

fun written :: "rw_call list \<Rightarrow> string" where
  "written [] = []"
| "written (Write b # cs) = b @ written cs"
| "written (_ # cs) = written cs"

text \<open>
  \<^verbatim>\<open>(*bytes.Buffer).WriteTo(w)\<close> calls \<^verbatim>\<open>w.Write\<close> once with the whole content, and not at
  all when the buffer is empty.
\<close>

definition Buffer_WriteTo :: "string \<Rightarrow> rw_call list \<Rightarrow> rw_call list" where
  "Buffer_WriteTo b w = (if b = [] then w else w @ [Write b])"

definition StatusOK :: int where
  "StatusOK = 200"

section \<open>TemplatesData\<close>

text \<open>\<^verbatim>\<open>for k, v := range data { templatesData[k] = v }\<close>\<close>

fun range_assign :: "gomap \<Rightarrow> gomap \<Rightarrow> gomap" where
  "range_assign [] td = td"
| "range_assign ((k, v) # rest) td = range_assign rest (AList.update k v td)"

definition TemplatesData :: "'cat state \<Rightarrow> DataMap \<Rightarrow> 'cat state \<times> panic option" where
  "TemplatesData s data =
     (case templates s of
        None \<Rightarrow> (s, Some (PanicError errNoTemplatesDir))
      | Some t \<Rightarrow>
          (case data of
             None \<Rightarrow> (s, None)
           | Some a \<Rightarrow>
               if length (heap s a) = 0 then (s, None)
               else
                 let td = (case templatesData s of None \<Rightarrow> [] | Some m \<Rightarrow> m)
                 in (s\<lparr>templatesData := Some (range_assign (heap s a) td)\<rparr>, None)))"

section \<open>ExecuteTemplate, TemplateStatus, Template\<close>

text \<open>\<^verbatim>\<open>for k, v := range templatesData { if _, ok := data[k]; !ok { data[k] = v } }\<close>\<close>

fun range_fill :: "gomap \<Rightarrow> gomap \<Rightarrow> gomap" where
  "range_fill [] data = data"
| "range_fill ((k, v) # rest) data =
     range_fill rest (if map_of data k = None then AList.update k v data else data)"

text \<open>
  Lines 129 to 138 of \<^verbatim>\<open>ExecuteTemplate\<close>, on the content \<open>m\<close> of the map \<^verbatim>\<open>data\<close> refers to
  (empty when it was nil and has just been made): the two assignments, then the loop over
  \<^verbatim>\<open>templatesData\<close>, which runs zero times over a nil map.
\<close>

definition fill_data :: "bool \<Rightarrow> gomap option \<Rightarrow> nat \<Rightarrow> gomap \<Rightarrow> gomap" where
  "fill_data production td c m =
     range_fill (case td of None \<Rightarrow> [] | Some ov \<Rightarrow> ov)
       (AList.update ''production'' (VBool production) (AList.update ''c'' (VContext c) m))"

text \<open>
  \<open>exec t name d\<close> stands for \<^verbatim>\<open>templates.ExecuteTemplate(wr, name, data)\<close> of
  \<^verbatim>\<open>html/template\<close>: the bytes it writes to \<^verbatim>\<open>wr\<close> and the error it returns (it may have
  written some bytes when it fails).  The writer \<^verbatim>\<open>wr\<close> is the bytes it holds.  The result
  is the state (the caller's map is updated in the store), the writer, and the error.
\<close>

definition ExecuteTemplate ::
  "('cat \<Rightarrow> string \<Rightarrow> (string \<rightharpoonup> val) \<Rightarrow> string \<times> error option) \<Rightarrow> bool \<Rightarrow>
   'cat state \<Rightarrow> string \<Rightarrow> Context \<Rightarrow> string \<Rightarrow> DataMap \<Rightarrow>
   'cat state \<times> string \<times> error option" where
  "ExecuteTemplate exec production s wr c name data =
     (case templates s of
        None \<Rightarrow> (s, wr, Some errNoTemplatesDir)
      | Some t \<Rightarrow>
          let m = fill_data production (templatesData s) (ptr c)
                    (case data of None \<Rightarrow> [] | Some a \<Rightarrow> heap s a);
              s' = (case data of None \<Rightarrow> s | Some a \<Rightarrow> s\<lparr>heap := (heap s)(a := m)\<rparr>);
              r = exec t name (map_of m)
          in (s', wr @ fst r, snd r))"

definition TemplateStatus ::
  "('cat \<Rightarrow> string \<Rightarrow> (string \<rightharpoonup> val) \<Rightarrow> string \<times> error option) \<Rightarrow> bool \<Rightarrow>
   'cat state \<Rightarrow> Context \<Rightarrow> int \<Rightarrow> string \<Rightarrow> DataMap \<Rightarrow>
   'cat state \<times> Context \<times> panic option" where
  "TemplateStatus exec production s c code name data =
     (case templates s of
        None \<Rightarrow> (s, c, Some (PanicError errNoTemplatesDir))
      | Some t \<Rightarrow>
          (case ExecuteTemplate exec production s [] c name data of
             (s', b, Some err) \<Rightarrow> (s', c, Some (PanicError err))
           | (s', b, None) \<Rightarrow>
               (s',
                c\<lparr>ResponseWriter :=
                    Buffer_WriteTo b
                      (ResponseWriter c @
                         [HeaderSet ''Content-Type'' ''text/html; charset=utf-8'',
                          WriteHeader code])\<rparr>,
                None)))"

definition Template ::
  "('cat \<Rightarrow> string \<Rightarrow> (string \<rightharpoonup> val) \<Rightarrow> string \<times> error option) \<Rightarrow> bool \<Rightarrow>
   'cat state \<Rightarrow> Context \<Rightarrow> string \<Rightarrow> DataMap \<Rightarrow>
   'cat state \<times> Context \<times> panic option" where
  "Template exec production s c name data =
     TemplateStatus exec production s c StatusOK name data"

section \<open>String, Bytes, JSON\<close>

text \<open>
  \<open>setct w p\<close> stands for \<^verbatim>\<open>httputil.SetDetectedContentType(w, p)\<close>: the calls on the
  writer after it.  A Go string and a byte slice are both the list of their bytes.
\<close>

definition StringStatus ::
  "(rw_call list \<Rightarrow> string \<Rightarrow> rw_call list) \<Rightarrow> Context \<Rightarrow> int \<Rightarrow> string \<Rightarrow> Context" where
  "StringStatus setct c code s =
     c\<lparr>ResponseWriter := setct (ResponseWriter c) s @ [WriteHeader code, Write s]\<rparr>"

definition String ::
  "(rw_call list \<Rightarrow> string \<Rightarrow> rw_call list) \<Rightarrow> Context \<Rightarrow> string \<Rightarrow> Context" where
  "String setct c s = StringStatus setct c StatusOK s"

definition BytesStatus ::
  "(rw_call list \<Rightarrow> string \<Rightarrow> rw_call list) \<Rightarrow> Context \<Rightarrow> int \<Rightarrow> string \<Rightarrow> Context" where
  "BytesStatus setct c code b =
     c\<lparr>ResponseWriter := setct (ResponseWriter c) b @ [WriteHeader code, Write b]\<rparr>"

definition Bytes ::
  "(rw_call list \<Rightarrow> string \<Rightarrow> rw_call list) \<Rightarrow> Context \<Rightarrow> string \<Rightarrow> Context" where
  "Bytes setct c b = BytesStatus setct c StatusOK b"

text \<open>\<open>marshal v\<close> stands for \<^verbatim>\<open>json.Marshal(v)\<close>: the error, or the bytes.\<close>

definition JSONStatus ::
  "('v \<Rightarrow> error + string) \<Rightarrow> Context \<Rightarrow> int \<Rightarrow> 'v \<Rightarrow> Context \<times> panic option" where
  "JSONStatus marshal c code v =
     (case marshal v of
        Inl err \<Rightarrow> (c, Some (PanicError err))
      | Inr b \<Rightarrow>
          (c\<lparr>ResponseWriter :=
               ResponseWriter c @
                 [HeaderSet ''Content-Type'' ''application/json'', WriteHeader code, Write b]\<rparr>,
           None))"

definition JSON ::
  "('v \<Rightarrow> error + string) \<Rightarrow> Context \<Rightarrow> 'v \<Rightarrow> Context \<times> panic option" where
  "JSON marshal c v = JSONStatus marshal c StatusOK v"

section \<open>init and the walk of the templates directory\<close>

text \<open>
  What \<^verbatim>\<open>filepath.Walk\<close> finds under a path: an entry that is not a directory, a directory
  with its entries by name (sorted, as \<^verbatim>\<open>readDirNames\<close> returns them), a directory whose
  listing fails, an entry whose \<^verbatim>\<open>lstat\<close> fails.
\<close>

datatype fnode = File | Dir "(string \<times> fnode) list" | DirUnreadable error | Broken error

text \<open>A call either returns or panics.\<close>

datatype 'a outcome = Returns 'a | Panics panic

definition nil_dereference :: panic where
  "nil_dereference =
     PanicError (Err ''runtime error: invalid memory address or nil pointer dereference'')"

text \<open>
  \<^verbatim>\<open>templatesWalk(path, f, err)\<close>.  \<open>f\<close> is \<open>None\<close> for a nil \<^verbatim>\<open>os.FileInfo\<close> and
  \<open>Some d\<close> for one whose \<^verbatim>\<open>IsDir()\<close> is \<open>d\<close>.  \<open>ParseFiles path t\<close> stands for
  \<^verbatim>\<open>templates.ParseFiles(path)\<close> of \<^verbatim>\<open>html/template\<close> on the receiver \<open>t\<close>: the receiver
  after the call, and the error.
\<close>

definition templatesWalk ::
  "(string \<Rightarrow> 'cat option \<Rightarrow> 'cat option \<times> error option) \<Rightarrow>
   string \<Rightarrow> bool option \<Rightarrow> error option \<Rightarrow> 'cat state \<Rightarrow>
   'cat state \<times> error option outcome" where
  "templatesWalk ParseFiles path f err s =
     (case err of
        Some e \<Rightarrow> (s, Returns (Some e))
      | None \<Rightarrow>
          (case f of
             None \<Rightarrow> (s, Panics nil_dereference)
           | Some True \<Rightarrow> (s, Returns None)
           | Some False \<Rightarrow>
               let r = ParseFiles path (templates s)
               in (s\<lparr>templates := fst r\<rparr>, Returns (snd r))))"

text \<open>\<^verbatim>\<open>filepath.Join(path, name)\<close> for a clean path and a plain name.\<close>

definition Join :: "string \<Rightarrow> string \<Rightarrow> string" where
  "Join path name = path @ ''/'' @ name"

text \<open>
  \<^verbatim>\<open>filepath.Walk(root, walkFn)\<close> of the Go library: \<open>walkFn\<close> is called on every entry,
  a directory before its entries; an \<^verbatim>\<open>lstat\<close> or listing error is handed to \<open>walkFn\<close>;
  the first call that does not return nil ends the walk with what it returned.  No error
  of this model is \<^verbatim>\<open>filepath.SkipDir\<close>, which neither the file system nor
  \<^verbatim>\<open>ParseFiles\<close> returns.
\<close>

fun walk ::
  "(string \<Rightarrow> bool option \<Rightarrow> error option \<Rightarrow> 'st \<Rightarrow> 'st \<times> error option outcome) \<Rightarrow>
   string \<Rightarrow> fnode \<Rightarrow> 'st \<Rightarrow> 'st \<times> error option outcome"
and walk_names ::
  "(string \<Rightarrow> bool option \<Rightarrow> error option \<Rightarrow> 'st \<Rightarrow> 'st \<times> error option outcome) \<Rightarrow>
   string \<Rightarrow> (string \<times> fnode) list \<Rightarrow> 'st \<Rightarrow> 'st \<times> error option outcome" where
  "walk walkFn path File st = walkFn path (Some False) None st"
| "walk walkFn path (Broken e) st = walkFn path None (Some e) st"
| "walk walkFn path (DirUnreadable e) st = walkFn path (Some True) (Some e) st"
| "walk walkFn path (Dir names) st =
     (case walkFn path (Some True) None st of
        (st', Returns None) \<Rightarrow> walk_names walkFn path names st'
      | r \<Rightarrow> r)"
| "walk_names walkFn path [] st = (st, Returns None)"
| "walk_names walkFn path ((name, n) # rest) st =
     (case walk walkFn (Join path name) n st of
        (st', Returns None) \<Rightarrow> walk_names walkFn path rest st'
      | r \<Rightarrow> r)"

text \<open>
  The function \<^verbatim>\<open>init\<close> hands to \<^verbatim>\<open>core.BeforeRun\<close>; \<open>root\<close> is what the walk finds at
  \<^verbatim>\<open>templatesDir\<close> when the host runs it.
\<close>

definition beforeRun ::
  "(string \<Rightarrow> 'cat option \<Rightarrow> 'cat option \<times> error option) \<Rightarrow> fnode \<Rightarrow> 'cat state \<Rightarrow>
   'cat state \<times> panic option" where
  "beforeRun ParseFiles root s =
     (case walk (templatesWalk ParseFiles) templatesDir root s of
        (s', Returns None) \<Rightarrow> (s', None)
      | (s', Returns (Some err)) \<Rightarrow> (s', Some (PanicString (''response: '' @ Error err)))
      | (s', Panics p) \<Rightarrow> (s', Some p))"

text \<open>
  \<^verbatim>\<open>init\<close>: \<open>stat\<close> is the error of \<^verbatim>\<open>os.Stat(templatesDir)\<close>; \<open>New name\<close> stands for
  \<^verbatim>\<open>template.New(name)\<close> with the built-in functions \<^verbatim>\<open>html\<close> and \<^verbatim>\<open>nl2br\<close> added.  The
  result is the state and the function registered with \<^verbatim>\<open>core.BeforeRun\<close>, if any.
\<close>

definition init ::
  "(string \<Rightarrow> 'cat) \<Rightarrow> (string \<Rightarrow> 'cat option \<Rightarrow> 'cat option \<times> error option) \<Rightarrow>
   error option \<Rightarrow> 'cat state \<Rightarrow>
   'cat state \<times> (fnode \<Rightarrow> 'cat state \<Rightarrow> 'cat state \<times> panic option) option" where
  "init New ParseFiles stat s =
     (case stat of
        Some err \<Rightarrow> (s, None)
      | None \<Rightarrow> (s\<lparr>templates := Some (New templatesDir)\<rparr>, Some (beforeRun ParseFiles)))"

section \<open>The overlay as it is read, and the walk as the specification words it\<close>

text \<open>The data overlay as a render or a later registration reads it: nil reads as empty.\<close>

definition overlay :: "'cat state \<Rightarrow> string \<rightharpoonup> val" where
  "overlay s = map_of (case templatesData s of None \<Rightarrow> [] | Some m \<Rightarrow> m)"

text \<open>
  The startup walk in the words of the specification.  \<open>walk_order path n\<close> lists what
  matters under \<open>n\<close> in the order of the walk: \<open>Inl p\<close> for an entry at path \<open>p\<close> that is
  not a directory, \<open>Inr e\<close> for an error of the file system; a directory contributes nothing
  of its own, only what is below it.  \<open>parse_in_order\<close> parses the paths of such a list one
  after the other into \<^verbatim>\<open>templates\<close> and stops at the first error, of the file system or
  of the parser, which is its result.
\<close>

fun walk_order :: "string \<Rightarrow> fnode \<Rightarrow> (string + error) list"
and walk_order_names :: "string \<Rightarrow> (string \<times> fnode) list \<Rightarrow> (string + error) list" where
  "walk_order path File = [Inl path]"
| "walk_order path (Broken e) = [Inr e]"
| "walk_order path (DirUnreadable e) = [Inr e]"
| "walk_order path (Dir names) = walk_order_names path names"
| "walk_order_names path [] = []"
| "walk_order_names path ((name, n) # rest) =
     walk_order (Join path name) n @ walk_order_names path rest"

fun parse_in_order ::
  "(string \<Rightarrow> 'cat option \<Rightarrow> 'cat option \<times> error option) \<Rightarrow> (string + error) list \<Rightarrow>
   'cat state \<Rightarrow> 'cat state \<times> error option" where
  "parse_in_order ParseFiles [] s = (s, None)"
| "parse_in_order ParseFiles (Inr e # rest) s = (s, Some e)"
| "parse_in_order ParseFiles (Inl path # rest) s =
     (case ParseFiles path (templates s) of
        (t, None) \<Rightarrow> parse_in_order ParseFiles rest (s\<lparr>templates := t\<rparr>)
      | (t, Some e) \<Rightarrow> (s\<lparr>templates := t\<rparr>, Some e))"

section \<open>Example inputs\<close>

text \<open>
  A stand-in for the template engine with one template, \<^verbatim>\<open>Hello, {{.name}}!\<close> under the name
  \<^verbatim>\<open>hello.tmpl\<close>; any other name fails after some bytes have reached the writer.
\<close>

definition demo_exec :: "unit \<Rightarrow> string \<Rightarrow> (string \<rightharpoonup> val) \<Rightarrow> string \<times> error option" where
  "demo_exec t name d =
     (if name = ''hello.tmpl''
      then (''Hello, '' @ (case d ''name'' of Some (VString x) \<Rightarrow> x | _ \<Rightarrow> ''?'') @ ''!'', None)
      else (''<p>'', Some (Err (''html/template: '' @ quoted name @ '' is undefined''))))"

text \<open>A stand-in for the engine on the template \<^verbatim>\<open>{{.k}}\<close>: it prints what the data hold at \<open>k\<close>.\<close>

definition show_key :: "string \<Rightarrow> unit \<Rightarrow> string \<Rightarrow> (string \<rightharpoonup> val) \<Rightarrow> string \<times> error option" where
  "show_key k t name d =
     ((case d k of
         None \<Rightarrow> ''<no value>''
       | Some (VString x) \<Rightarrow> x
       | Some (VBool b) \<Rightarrow> (if b then ''true'' else ''false'')
       | Some (VContext a) \<Rightarrow> ''<context>''
       | Some (VInt i) \<Rightarrow> ''<int>''), None)"

text \<open>A stand-in for \<^verbatim>\<open>json.Marshal\<close> that encodes booleans and strings and rejects the rest.\<close>

definition demo_marshal :: "val \<Rightarrow> error + string" where
  "demo_marshal v =
     (case v of
        VBool b \<Rightarrow> Inr (if b then ''true'' else ''false'')
      | VString x \<Rightarrow> Inr (quoted x)
      | _ \<Rightarrow> Inl (Err ''json: unsupported type''))"

text \<open>A populated catalog, no overlay, and every address holding the map \<^verbatim>\<open>{"name": "World"}\<close>.\<close>

definition demo_state :: "unit state" where
  "demo_state =
     \<lparr>templates = Some (), templatesData = None, heap = (\<lambda>a. [(''name'', VString ''World'')])\<rparr>"

definition demo_context :: Context where
  "demo_context = \<lparr>ptr = 7, ResponseWriter = []\<rparr>"

text \<open>
  A stand-in for \<^verbatim>\<open>ParseFiles\<close> on a catalog that is the list of the paths parsed so far;
  the file \<^verbatim>\<open>templates/bad.tmpl\<close> does not parse.
\<close>

definition demo_parse :: "string \<Rightarrow> string list option \<Rightarrow> string list option \<times> error option" where
  "demo_parse path t =
     (if path = ''templates/bad.tmpl'' then (t, Some (Err ''template: bad.tmpl:1: unexpected EOF''))
      else (map_option (\<lambda>ps. ps @ [path]) t, None))"

definition demo_started :: "string list state" where
  "demo_started = \<lparr>templates = Some [], templatesData = None, heap = (\<lambda>a. [])\<rparr>"

text \<open>
  A state without a catalog, and one with a catalog, the overlay
  \<^verbatim>\<open>{"k": "overlay", "x": 1}\<close>, the map \<^verbatim>\<open>{"k": "call"}\<close> at address 0 and empty maps elsewhere.
\<close>

definition demo_absent :: "unit state" where
  "demo_absent = \<lparr>templates = None, templatesData = None, heap = (\<lambda>a. [])\<rparr>"

definition demo_overlaid :: "unit state" where
  "demo_overlaid =
     \<lparr>templates = Some (),
      templatesData = Some [(''k'', VString ''overlay''), (''x'', VInt 1)],
      heap = (\<lambda>a. if a = 0 then [(''k'', VString ''call'')] else [])\<rparr>"

section \<open>Rendering without a catalog\<close>

text \<open>
  Claim C3.  When \<^verbatim>\<open>templates\<close> is nil, \<^verbatim>\<open>ExecuteTemplate\<close> returns \<^verbatim>\<open>errNoTemplatesDir\<close> and
  leaves the writer and the state as they were; \<^verbatim>\<open>TemplateStatus\<close> and \<^verbatim>\<open>Template\<close> panic
  with that error and make no call on the response writer.  This holds for every template
  name, status code and data map.
\<close>

theorem absent_catalog_fails:
  "templates s = None \<Longrightarrow>
     ExecuteTemplate exec production s wr c name data = (s, wr, Some errNoTemplatesDir) \<and>
     TemplateStatus exec production s c code name data =
       (s, c, Some (PanicError errNoTemplatesDir)) \<and>
     Template exec production s c name data = (s, c, Some (PanicError errNoTemplatesDir))"
  by (simp add: ExecuteTemplate_def TemplateStatus_def Template_def)

theorem absent_catalog_fails_witness:
  "templates \<lparr>templates = None :: unit option, templatesData = None, heap = \<lambda>a. []\<rparr> = None \<and>
   ExecuteTemplate demo_exec False
       \<lparr>templates = None :: unit option, templatesData = None, heap = \<lambda>a. []\<rparr>
       [] \<lparr>ptr = 1, ResponseWriter = []\<rparr> ''hello.tmpl'' None
     = (\<lparr>templates = None, templatesData = None, heap = \<lambda>a. []\<rparr>, [],
        Some errNoTemplatesDir) \<and>
   TemplateStatus demo_exec False
       \<lparr>templates = None :: unit option, templatesData = None, heap = \<lambda>a. []\<rparr>
       \<lparr>ptr = 1, ResponseWriter = []\<rparr> 404 ''hello.tmpl'' None
     = (\<lparr>templates = None, templatesData = None, heap = \<lambda>a. []\<rparr>,
        \<lparr>ptr = 1, ResponseWriter = []\<rparr>, Some (PanicError errNoTemplatesDir))"
  using absent_catalog_fails
    [of "\<lparr>templates = None :: unit option, templatesData = None, heap = \<lambda>a. []\<rparr>"
        demo_exec False "[]" "\<lparr>ptr = 1, ResponseWriter = []\<rparr>" "''hello.tmpl''" None 404]
  by simp

section \<open>TemplateStatus writes all or nothing\<close>

lemma demo_run_ok:
  "ExecuteTemplate demo_exec False demo_state [] demo_context ''hello.tmpl'' (Some 0) =
     (demo_state\<lparr>heap := (heap demo_state)
         (0 := [(''name'', VString ''World''), (''c'', VContext 7),
                (''production'', VBool False)])\<rparr>,
      ''Hello, World!'', None)"
  by (simp add: ExecuteTemplate_def demo_exec_def demo_state_def demo_context_def fill_data_def)

lemma demo_run_fail:
  "ExecuteTemplate demo_exec False demo_state [] demo_context ''nope'' None =
     (demo_state, ''<p>'', Some (Err (''html/template: '' @ quoted ''nope'' @ '' is undefined'')))"
  by (simp add: ExecuteTemplate_def demo_exec_def demo_state_def demo_context_def fill_data_def)

text \<open>
  Claim C4.  Let \<^verbatim>\<open>ExecuteTemplate\<close> into the fresh buffer give the bytes \<open>b\<close> and the error
  \<open>err\<close>.  If \<open>err\<close> is an error \<open>e\<close> (an unknown name, a fault during execution, the missing
  catalog), \<^verbatim>\<open>TemplateStatus\<close> panics with \<open>e\<close> and the context is the one it was given: no
  header, status or body call was made, whatever had reached the buffer.  If \<open>err\<close> is nil,
  the calls added to the response writer are: the content type
  \<^verbatim>\<open>text/html; charset=utf-8\<close>, the status code, and the buffer in one \<^verbatim>\<open>Write\<close> (none for
  an empty buffer), so that the bytes written are exactly \<open>b\<close>.
\<close>

theorem TemplateStatus_atomic:
  "ExecuteTemplate exec production s [] c name data = (s1, b, err) \<Longrightarrow>
     (\<forall>e. err = Some e \<longrightarrow>
        TemplateStatus exec production s c code name data = (s1, c, Some (PanicError e))) \<and>
     (err = None \<longrightarrow>
        TemplateStatus exec production s c code name data =
          (s1,
           c\<lparr>ResponseWriter :=
               ResponseWriter c @
                 [HeaderSet ''Content-Type'' ''text/html; charset=utf-8'', WriteHeader code] @
                 (if b = [] then [] else [Write b])\<rparr>,
           None) \<and>
        written ([HeaderSet ''Content-Type'' ''text/html; charset=utf-8'', WriteHeader code] @
                 (if b = [] then [] else [Write b])) = b)"
  by (cases "templates s")
     (auto simp: TemplateStatus_def ExecuteTemplate_def Buffer_WriteTo_def Let_def)

theorem TemplateStatus_atomic_witness:
  "TemplateStatus demo_exec False demo_state demo_context 201 ''hello.tmpl'' (Some 0) =
     (demo_state\<lparr>heap := (heap demo_state)
         (0 := [(''name'', VString ''World''), (''c'', VContext 7),
                (''production'', VBool False)])\<rparr>,
      \<lparr>ptr = 7, ResponseWriter =
         [HeaderSet ''Content-Type'' ''text/html; charset=utf-8'', WriteHeader 201,
          Write ''Hello, World!'']\<rparr>,
      None) \<and>
   TemplateStatus demo_exec False demo_state demo_context 201 ''nope'' None =
     (demo_state, demo_context,
      Some (PanicError (Err (''html/template: '' @ quoted ''nope'' @ '' is undefined''))))"
  using TemplateStatus_atomic [OF demo_run_ok, of 201]
        TemplateStatus_atomic [OF demo_run_fail, of 201]
  by (simp add: demo_context_def)

section \<open>JSON\<close>

text \<open>
  Claim C6.  If \<^verbatim>\<open>json.Marshal\<close> fails with \<open>e\<close>, \<^verbatim>\<open>JSONStatus\<close> (and \<^verbatim>\<open>JSON\<close>) panics with
  \<open>e\<close> and the context is unchanged: no call was made on the response writer.  If it gives
  the bytes \<open>b\<close>, the calls added are the content type \<^verbatim>\<open>application/json\<close>, the status code
  (200 for \<^verbatim>\<open>JSON\<close>), and one \<^verbatim>\<open>Write\<close> of \<open>b\<close>; the bytes written are exactly \<open>b\<close>.
\<close>

theorem JSONStatus_atomic:
  "(\<forall>e. marshal v = Inl e \<longrightarrow>
        JSONStatus marshal c code v = (c, Some (PanicError e)) \<and>
        JSON marshal c v = (c, Some (PanicError e))) \<and>
   (\<forall>b. marshal v = Inr b \<longrightarrow>
        JSONStatus marshal c code v =
          (c\<lparr>ResponseWriter :=
               ResponseWriter c @
                 [HeaderSet ''Content-Type'' ''application/json'', WriteHeader code, Write b]\<rparr>,
           None) \<and>
        JSON marshal c v =
          (c\<lparr>ResponseWriter :=
               ResponseWriter c @
                 [HeaderSet ''Content-Type'' ''application/json'', WriteHeader 200, Write b]\<rparr>,
           None) \<and>
        written [HeaderSet ''Content-Type'' ''application/json'', WriteHeader code, Write b] = b)"
  by (simp add: JSONStatus_def JSON_def StatusOK_def)

theorem JSONStatus_atomic_witness:
  "JSONStatus demo_marshal demo_context 202 (VBool True) =
     (\<lparr>ptr = 7, ResponseWriter =
         [HeaderSet ''Content-Type'' ''application/json'', WriteHeader 202, Write ''true'']\<rparr>,
      None) \<and>
   JSONStatus demo_marshal demo_context 202 (VContext 7) =
     (demo_context, Some (PanicError (Err ''json: unsupported type'')))"
  using JSONStatus_atomic [of demo_marshal "VBool True" demo_context 202]
        JSONStatus_atomic [of demo_marshal "VContext 7" demo_context 202]
  by (simp add: demo_marshal_def demo_context_def)

section \<open>The renderers without a status\<close>

text \<open>
  Claim C10.  \<^verbatim>\<open>Template\<close>, \<^verbatim>\<open>String\<close>, \<^verbatim>\<open>Bytes\<close> and \<^verbatim>\<open>JSON\<close> are \<^verbatim>\<open>TemplateStatus\<close>,
  \<^verbatim>\<open>StringStatus\<close>, \<^verbatim>\<open>BytesStatus\<close> and \<^verbatim>\<open>JSONStatus\<close> at the status code 200, for every
  context and payload.
\<close>

theorem status_less_is_status_200:
  "Template exec production s c name data = TemplateStatus exec production s c 200 name data \<and>
   String setct c str = StringStatus setct c 200 str \<and>
   Bytes setct c b = BytesStatus setct c 200 b \<and>
   JSON marshal c v = JSONStatus marshal c 200 v"
  by (simp add: Template_def String_def Bytes_def JSON_def StatusOK_def)

section \<open>The data a template is executed against\<close>

lemma map_of_range_fill:
  "map_of (range_fill ov m) k = (case map_of m k of Some v \<Rightarrow> Some v | None \<Rightarrow> map_of ov k)"
proof (induction ov arbitrary: m)
  case Nil
  then show ?case by (simp split: option.splits)
next
  case (Cons p ov)
  obtain k' v' where p: "p = (k', v')" by (cases p)
  show ?case
    unfolding p by (simp add: Cons.IH update_conv' split: option.splits)
qed

lemma map_of_fill_data:
  "map_of (fill_data production td c m) k =
     (if k = ''production'' then Some (VBool production)
      else if k = ''c'' then Some (VContext c)
      else case map_of m k of Some v \<Rightarrow> Some v
           | None \<Rightarrow> map_of (case td of None \<Rightarrow> [] | Some ov \<Rightarrow> ov) k)"
  by (simp add: fill_data_def map_of_range_fill update_conv')

text \<open>
  Claim C1 says that a value the caller supplies under \<^verbatim>\<open>c\<close> or \<^verbatim>\<open>production\<close> is left
  intact, as the comment of \<^verbatim>\<open>ExecuteTemplate\<close> promises.  The two assignments are not
  guarded: with the call data \<^verbatim>\<open>{"c": "custom"}\<close> the template \<^verbatim>\<open>{{.c}}\<close> is executed
  against the context, and the caller's map holds the context afterwards; likewise
  \<^verbatim>\<open>{"production": "custom"}\<close> is replaced by the value of \<^verbatim>\<open>core.Production\<close>.
\<close>

theorem reserved_keys_overwritten:
  "ExecuteTemplate (show_key ''c'') False
       \<lparr>templates = Some (), templatesData = None, heap = (\<lambda>a. [(''c'', VString ''custom'')])\<rparr>
       [] \<lparr>ptr = 7, ResponseWriter = []\<rparr> ''t'' (Some 0)
     = (\<lparr>templates = Some (), templatesData = None,
         heap = (\<lambda>a. [(''c'', VString ''custom'')])
                  (0 := [(''c'', VContext 7), (''production'', VBool False)])\<rparr>,
        ''<context>'', None) \<and>
   ExecuteTemplate (show_key ''production'') False
       \<lparr>templates = Some (), templatesData = None,
        heap = (\<lambda>a. [(''production'', VString ''custom'')])\<rparr>
       [] \<lparr>ptr = 7, ResponseWriter = []\<rparr> ''t'' (Some 0)
     = (\<lparr>templates = Some (), templatesData = None,
         heap = (\<lambda>a. [(''production'', VString ''custom'')])
                  (0 := [(''production'', VBool False), (''c'', VContext 7)])\<rparr>,
        ''false'', None)"
  by (simp add: ExecuteTemplate_def fill_data_def show_key_def)

text \<open>
  Claim C2 says that every key of the call data keeps the caller's value also when the
  overlay binds it.  For the key \<^verbatim>\<open>c\<close> it does not: with the overlay \<^verbatim>\<open>{"c": "overlay"}\<close> and
  the call data \<^verbatim>\<open>{"c": "call"}\<close> the template \<^verbatim>\<open>{{.c}}\<close> is executed against the context,
  neither against \<^verbatim>\<open>"call"\<close> nor against \<^verbatim>\<open>"overlay"\<close>.
\<close>

theorem shared_reserved_key_loses_call_value:
  "ExecuteTemplate (show_key ''c'') False
       \<lparr>templates = Some (), templatesData = Some [(''c'', VString ''overlay'')],
        heap = (\<lambda>a. [(''c'', VString ''call'')])\<rparr>
       [] \<lparr>ptr = 7, ResponseWriter = []\<rparr> ''t'' (Some 0)
     = (\<lparr>templates = Some (), templatesData = Some [(''c'', VString ''overlay'')],
         heap = (\<lambda>a. [(''c'', VString ''call'')])
                  (0 := [(''c'', VContext 7), (''production'', VBool False)])\<rparr>,
        ''<context>'', None)"
  by (simp add: ExecuteTemplate_def fill_data_def show_key_def)

text \<open>
  What does hold, with a catalog: the engine is run once, on data \<open>d\<close> that bind \<^verbatim>\<open>c\<close> to
  the context and \<^verbatim>\<open>production\<close> to \<^verbatim>\<open>core.Production\<close>, and that bind every other key to
  the caller's value when the call data have the key, and to the overlay's otherwise.
\<close>

theorem engine_sees:
  assumes "templates s = Some t"
  shows "\<exists>d. snd (ExecuteTemplate exec production s wr c name data) =
               (wr @ fst (exec t name d), snd (exec t name d)) \<and>
             d ''c'' = Some (VContext (ptr c)) \<and>
             d ''production'' = Some (VBool production) \<and>
             (\<forall>k. k \<noteq> ''c'' \<longrightarrow> k \<noteq> ''production'' \<longrightarrow>
                d k = (case map_of (case data of None \<Rightarrow> [] | Some a \<Rightarrow> heap s a) k of
                         Some v \<Rightarrow> Some v
                       | None \<Rightarrow> overlay s k))"
proof -
  let ?m = "fill_data production (templatesData s) (ptr c)
              (case data of None \<Rightarrow> [] | Some a \<Rightarrow> heap s a)"
  have "snd (ExecuteTemplate exec production s wr c name data) =
          (wr @ fst (exec t name (map_of ?m)), snd (exec t name (map_of ?m)))"
    using assms by (simp add: ExecuteTemplate_def Let_def)
  moreover have "map_of ?m ''c'' = Some (VContext (ptr c))"
    by (simp add: map_of_fill_data)
  moreover have "map_of ?m ''production'' = Some (VBool production)"
    by (simp add: map_of_fill_data)
  moreover have "\<forall>k. k \<noteq> ''c'' \<longrightarrow> k \<noteq> ''production'' \<longrightarrow>
      map_of ?m k = (case map_of (case data of None \<Rightarrow> [] | Some a \<Rightarrow> heap s a) k of
                       Some v \<Rightarrow> Some v
                     | None \<Rightarrow> overlay s k)"
    unfolding overlay_def by (simp add: map_of_fill_data)
  ultimately show ?thesis by blast
qed

theorem engine_sees_witness:
  "templates demo_overlaid = Some () \<and>
   snd (ExecuteTemplate (show_key ''k'') False demo_overlaid [] demo_context ''t'' (Some 0)) =
     (''call'', None) \<and>
   snd (ExecuteTemplate (show_key ''k'') False demo_overlaid [] demo_context ''t'' (Some 1)) =
     (''overlay'', None)"
  using engine_sees [of demo_overlaid "()" "show_key ''k''" False "[]" demo_context "''t''" "Some 0"]
        engine_sees [of demo_overlaid "()" "show_key ''k''" False "[]" demo_context "''t''" "Some 1"]
  by (simp add: demo_overlaid_def demo_context_def ExecuteTemplate_def fill_data_def show_key_def)

section \<open>The caller's map after a render\<close>

lemma demo_overlaid_run:
  "ExecuteTemplate (show_key ''k'') False demo_overlaid [] demo_context ''t'' (Some 0) =
     (demo_overlaid\<lparr>heap := (heap demo_overlaid)
        (0 := [(''k'', VString ''call''), (''c'', VContext 7), (''production'', VBool False),
               (''x'', VInt 1)])\<rparr>,
      ''call'', None)"
  by (simp add: ExecuteTemplate_def demo_overlaid_def demo_context_def fill_data_def show_key_def)

text \<open>
  Claim C9, amended.  With a catalog and a map that is not nil, \<^verbatim>\<open>ExecuteTemplate\<close> works on
  the caller's own map: after the call the map at the caller's address binds \<^verbatim>\<open>c\<close> to the
  context and \<^verbatim>\<open>production\<close> to \<^verbatim>\<open>core.Production\<close>, keeps what the caller had under every
  other key, and binds every further key of the overlay to the overlay's value; it is the
  very map the engine was run on, no other map of the store has changed, and
  \<^verbatim>\<open>TemplateStatus\<close> and \<^verbatim>\<open>Template\<close> leave the store in the same state, also when they panic.
\<close>

theorem ExecuteTemplate_mutates_map:
  assumes "templates s = Some t"
    and "ExecuteTemplate exec production s wr c name (Some a) = (s', wr', err)"
  shows "map_of (heap s' a) ''c'' = Some (VContext (ptr c)) \<and>
         map_of (heap s' a) ''production'' = Some (VBool production) \<and>
         (\<forall>k. k \<noteq> ''c'' \<longrightarrow> k \<noteq> ''production'' \<longrightarrow>
              map_of (heap s' a) k =
                (case map_of (heap s a) k of Some v \<Rightarrow> Some v | None \<Rightarrow> overlay s k)) \<and>
         (\<forall>a'. a' \<noteq> a \<longrightarrow> heap s' a' = heap s a') \<and>
         (wr', err) = (wr @ fst (exec t name (map_of (heap s' a))),
                       snd (exec t name (map_of (heap s' a)))) \<and>
         fst (TemplateStatus exec production s c code name (Some a)) = s' \<and>
         fst (Template exec production s c name (Some a)) = s'"
  using assms
  by (auto simp: ExecuteTemplate_def TemplateStatus_def Template_def Let_def overlay_def
        map_of_fill_data split: option.splits prod.splits)

theorem ExecuteTemplate_mutates_map_witness:
  "templates demo_overlaid = Some () \<and>
   heap demo_overlaid 0 = [(''k'', VString ''call'')] \<and>
   heap (fst (ExecuteTemplate (show_key ''k'') False demo_overlaid [] demo_context ''t'' (Some 0))) 0 =
     [(''k'', VString ''call''), (''c'', VContext 7), (''production'', VBool False),
      (''x'', VInt 1)] \<and>
   heap (fst (TemplateStatus (show_key ''k'') False demo_overlaid demo_context 200 ''t'' (Some 0))) 0 =
     [(''k'', VString ''call''), (''c'', VContext 7), (''production'', VBool False),
      (''x'', VInt 1)]"
  using ExecuteTemplate_mutates_map [OF _ demo_overlaid_run, of "()" 200]
  by (simp add: demo_overlaid_run) (simp add: demo_overlaid_def)

text \<open>
  Claim C9 as it was stated fails without a catalog: \<^verbatim>\<open>ExecuteTemplate\<close> returns
  \<^verbatim>\<open>errNoTemplatesDir\<close> before it touches the map, so the caller's empty map at address 0
  has no entry under \<^verbatim>\<open>c\<close> after the call has returned.
\<close>

theorem absent_catalog_leaves_map:
  "map_of (heap (fst (ExecuteTemplate demo_exec False demo_absent [] demo_context
                        ''hello.tmpl'' (Some 0))) 0) ''c'' = None \<and>
   snd (ExecuteTemplate demo_exec False demo_absent [] demo_context ''hello.tmpl'' (Some 0)) =
     ([], Some errNoTemplatesDir)"
  by (simp add: ExecuteTemplate_def demo_absent_def)

section \<open>Registering overlay data\<close>

lemma map_of_range_assign:
  "distinct (map fst m) \<Longrightarrow> map_of (range_assign m td) = map_of td ++ map_of m"
proof (induction m arbitrary: td)
  case Nil
  then show ?case by simp
next
  case (Cons p m)
  obtain k v where p: "p = (k, v)" by (cases p)
  from Cons.prems p have k: "k \<notin> fst ` set m" and d: "distinct (map fst m)" by auto
  from k have none: "map_of m k = None" by (simp add: map_of_eq_None_iff)
  have "map_of (range_assign (p # m) td) = map_of (AList.update k v td) ++ map_of m"
    using Cons.IH [OF d] p by simp
  also have "\<dots> = (map_of td)(k \<mapsto> v) ++ map_of m" by (simp add: update_conv')
  also have "\<dots> = map_of td ++ map_of (p # m)"
    using none p by (auto simp: map_add_def fun_eq_iff split: option.splits)
  finally show ?case .
qed

lemma range_assign_same:
  "(\<And>k v. (k, v) \<in> set m \<Longrightarrow> map_of td k = Some v) \<Longrightarrow> range_assign m td = td"
proof (induction m arbitrary: td)
  case Nil
  then show ?case by simp
next
  case (Cons p m)
  obtain k v where p: "p = (k, v)" by (cases p)
  have "map_of td k = Some v" using Cons.prems [of k v] p by simp
  then have "AList.update k v td = td" by (rule update_triv)
  then show ?case using Cons p by simp
qed

lemma range_assign_twice:
  assumes "distinct (map fst m)"
  shows "range_assign m (range_assign m td) = range_assign m td"
proof (rule range_assign_same)
  fix k v assume "(k, v) \<in> set m"
  then have "map_of m k = Some v" using assms by simp
  then show "map_of (range_assign m td) k = Some v"
    by (simp add: map_of_range_assign [OF assms] map_add_def)
qed

text \<open>
  Claim C7, amended.  Without a catalog \<^verbatim>\<open>TemplatesData\<close> panics with
  \<^verbatim>\<open>errNoTemplatesDir\<close>, whatever the map.  With a catalog, a nil or empty map is a no-op:
  the state is the one before and there is no panic.
\<close>

theorem TemplatesData_guards:
  "(templates s = None \<longrightarrow> TemplatesData s data = (s, Some (PanicError errNoTemplatesDir))) \<and>
   (templates s \<noteq> None \<longrightarrow> data = None \<or> (\<exists>a. data = Some a \<and> heap s a = []) \<longrightarrow>
      TemplatesData s data = (s, None))"
  by (auto simp: TemplatesData_def)

theorem TemplatesData_guards_witness:
  "TemplatesData demo_absent (Some 0) = (demo_absent, Some (PanicError errNoTemplatesDir)) \<and>
   TemplatesData demo_overlaid None = (demo_overlaid, None) \<and>
   TemplatesData demo_overlaid (Some 1) = (demo_overlaid, None)"
  using TemplatesData_guards [of demo_absent "Some 0"]
        TemplatesData_guards [of demo_overlaid None]
        TemplatesData_guards [of demo_overlaid "Some 1"]
  by (simp add: demo_absent_def demo_overlaid_def)

text \<open>
  Claim C7 as it was stated fails where its two halves meet: without a catalog a nil map,
  and an empty one, is no no-op, the call panics.
\<close>

theorem nil_map_without_catalog_panics:
  "TemplatesData demo_absent None = (demo_absent, Some (PanicError errNoTemplatesDir)) \<and>
   TemplatesData demo_absent (Some 0) = (demo_absent, Some (PanicError errNoTemplatesDir)) \<and>
   heap demo_absent 0 = []"
  by (simp add: TemplatesData_def demo_absent_def)

text \<open>
  Claim C8.  With a catalog and a non-empty map \<open>m\<close> (a Go map: no key twice), registering
  \<open>m\<close> a second time gives the state and result of registering it once, without a panic;
  and after a registration the overlay binds every key of \<open>m\<close> to the value \<open>m\<close> gives it,
  whatever an earlier registration had put there, and every other key as before.
\<close>

theorem TemplatesData_merge:
  assumes "templates s = Some t" and "heap s a \<noteq> []" and "distinct (map fst (heap s a))"
  shows "TemplatesData (fst (TemplatesData s (Some a))) (Some a) = TemplatesData s (Some a) \<and>
         snd (TemplatesData s (Some a)) = None \<and>
         (\<forall>k. overlay (fst (TemplatesData s (Some a))) k =
               (case map_of (heap s a) k of Some v \<Rightarrow> Some v | None \<Rightarrow> overlay s k))"
  using assms
  by (auto simp: TemplatesData_def Let_def overlay_def range_assign_twice map_of_range_assign
        map_add_def split: option.splits)

theorem TemplatesData_merge_witness:
  "templates demo_overlaid = Some () \<and>
   heap demo_overlaid 0 = [(''k'', VString ''call'')] \<and>
   templatesData demo_overlaid = Some [(''k'', VString ''overlay''), (''x'', VInt 1)] \<and>
   TemplatesData demo_overlaid (Some 0) =
     (demo_overlaid\<lparr>templatesData := Some [(''k'', VString ''call''), (''x'', VInt 1)]\<rparr>, None) \<and>
   TemplatesData (fst (TemplatesData demo_overlaid (Some 0))) (Some 0) =
     (demo_overlaid\<lparr>templatesData := Some [(''k'', VString ''call''), (''x'', VInt 1)]\<rparr>, None)"
  using TemplatesData_merge [of demo_overlaid "()" 0]
  by (simp add: demo_overlaid_def TemplatesData_def)

section \<open>The startup walk\<close>

lemma parse_in_order_append:
  "parse_in_order PF (xs @ ys) s =
     (case parse_in_order PF xs s of
        (s', None) \<Rightarrow> parse_in_order PF ys s'
      | (s', Some e) \<Rightarrow> (s', Some e))"
proof (induction xs arbitrary: s)
  case Nil
  then show ?case by simp
next
  case (Cons x xs)
  then show ?case
    by (cases x) (auto split: prod.splits option.splits)
qed

lemma walk_templatesWalk:
  "walk (templatesWalk PF) path n s =
     (case parse_in_order PF (walk_order path n) s of (s', r) \<Rightarrow> (s', Returns r))"
  "walk_names (templatesWalk PF) path names s =
     (case parse_in_order PF (walk_order_names path names) s of (s', r) \<Rightarrow> (s', Returns r))"
proof (induction "templatesWalk PF" path n s and "templatesWalk PF" path names s
       rule: walk_walk_names.induct)
  case (1 path st)
  then show ?case
    by (simp add: templatesWalk_def Let_def split: prod.splits option.splits)
next
  case (2 path e st)
  then show ?case by (simp add: templatesWalk_def)
next
  case (3 path e st)
  then show ?case by (simp add: templatesWalk_def)
next
  case (4 path names st)
  then show ?case by (simp add: templatesWalk_def)
next
  case (5 path st)
  then show ?case by simp
next
  case (6 path name n rest st)
  show ?case
  proof (cases "parse_in_order PF (walk_order (Join path name) n) st")
    case (Pair s1 r1)
    with 6 show ?thesis
      by (cases r1) (simp_all add: parse_in_order_append)
  qed
qed

text \<open>
  Claim C5.  When the directory exists, \<^verbatim>\<open>init\<close> creates the catalog and registers the
  walk.  The walk parses every entry that is not a directory, in the order of the walk and
  under its path, into \<^verbatim>\<open>templates\<close>; a directory is not parsed and the walk goes on below
  it.  The first error, of the file system or of the parser, ends the walk at once: nothing
  after it is parsed, and the registered function panics with \<^verbatim>\<open>"response: "\<close> followed by
  the error's message.  Without an error it returns normally.
\<close>

theorem startup_walk:
  "init New PF None s = (s\<lparr>templates := Some (New templatesDir)\<rparr>, Some (beforeRun PF)) \<and>
   beforeRun PF root s =
     (case parse_in_order PF (walk_order templatesDir root) s of
        (s', None) \<Rightarrow> (s', None)
      | (s', Some e) \<Rightarrow> (s', Some (PanicString (''response: '' @ Error e))))"
  by (simp add: init_def beforeRun_def walk_templatesWalk split: prod.splits option.splits)

theorem startup_walk_witness:
  "beforeRun demo_parse
      (Dir [(''a.tmpl'', File), (''sub'', Dir [(''b.tmpl'', File)]), (''z.tmpl'', File)])
      demo_started
     = (demo_started\<lparr>templates :=
          Some [''templates/a.tmpl'', ''templates/sub/b.tmpl'', ''templates/z.tmpl'']\<rparr>, None) \<and>
   beforeRun demo_parse
      (Dir [(''a.tmpl'', File), (''bad.tmpl'', File), (''z.tmpl'', File)]) demo_started
     = (demo_started\<lparr>templates := Some [''templates/a.tmpl'']\<rparr>,
        Some (PanicString ''response: template: bad.tmpl:1: unexpected EOF'')) \<and>
   beforeRun demo_parse
      (Dir [(''a.tmpl'', File), (''gone'', Broken (Err ''lstat templates/gone: no such file'')),
            (''z.tmpl'', File)]) demo_started
     = (demo_started\<lparr>templates := Some [''templates/a.tmpl'']\<rparr>,
        Some (PanicString ''response: lstat templates/gone: no such file''))"
  using startup_walk [of "\<lambda>n. []" demo_parse demo_started
          "Dir [(''a.tmpl'', File), (''sub'', Dir [(''b.tmpl'', File)]), (''z.tmpl'', File)]"]
        startup_walk [of "\<lambda>n. []" demo_parse demo_started
          "Dir [(''a.tmpl'', File), (''bad.tmpl'', File), (''z.tmpl'', File)]"]
        startup_walk [of "\<lambda>n. []" demo_parse demo_started
          "Dir [(''a.tmpl'', File), (''gone'', Broken (Err ''lstat templates/gone: no such file'')),
                (''z.tmpl'', File)]"]
  by (simp add: demo_parse_def demo_started_def templatesDir_def Join_def)

end
